theory Spec2Isabelle
  imports Complex_Main
begin

section \<open>Token lifecycle manager of core/token\_handler.py\<close>

text \<open>
  The development embeds the three classes of \<^verbatim>\<open>core/token_handler.py\<close>
  (\<^verbatim>\<open>DefaultTokenProvider\<close>, \<^verbatim>\<open>TokenManager\<close>, \<^verbatim>\<open>TokenFetcherPool\<close>) and the
  settings object of \<^verbatim>\<open>config/handle_token_config.py\<close>.

  Conventions of the embedding:
  \<^item> an exception is a value of \<open>error\<close>; a call that may raise returns \<open>error + 'a\<close>
    with \<open>Inl\<close> for the exception;
  \<^item> the mutable instance attributes of an object are a record that is passed in and
    returned updated; the reentrant locks guard single assignments and are not modelled;
  \<^item> \<^verbatim>\<open>time.time()\<close> reads the field \<open>now\<close> of the \<open>world\<close>; the clock moves only
    where the code suspends (the network call, \<^verbatim>\<open>asyncio.sleep\<close>) and between calls.
    Float seconds are modelled over the reals;
  \<^item> the refresh endpoint is an oracle \<open>server\<close>: the outcome and the duration of the
    n-th POST;
  \<^item> \<^verbatim>\<open>functools.lru_cache\<close> is modelled as the dictionary it keeps, keyed by the
    identity of \<^verbatim>\<open>self\<close> (neither class defines \<^verbatim>\<open>__eq__\<close> or \<^verbatim>\<open>__hash__\<close>);
  \<^item> \<^verbatim>\<open>hashlib.sha256(...).hexdigest()\<close> is a library function and is taken as the
    parameter \<open>sha\<close>.
\<close>

subsection \<open>Exceptions, log records, settings\<close>

datatype error =
    NotImplementedError
  | AttributeError
  | ValueError
  | ClientError
  | TimeoutError

datatype level = ERROR | INFO | WARNING

text \<open>
  The log lines of the module, one constructor per format string:
  \<open>RefreshErrorMsg e\<close> "error during automatic token refresh: e",
  \<open>NetworkErrorMsg\<close> "network request failed, ...",
  \<open>MalformedResponseMsg\<close> "response data malformed, no new token",
  \<open>UnknownErrorMsg e\<close> "unknown error type ...",
  \<open>ProviderSwitchedBackupMsg\<close> "too many refresh failures of the main token, switched to
  the backup token", \<open>ManagerSwitchedBackupMsg\<close> "refresh of the main token failed,
  switched to the backup token", \<open>ConcurrentErrorMsg e\<close> "error during concurrent token
  refresh: e", \<open>ConcurrentLimitMsg\<close> "concurrent refresh at its limit, not refreshing".
\<close>

datatype log_msg =
    RefreshErrorMsg error
  | NetworkErrorMsg
  | MalformedResponseMsg
  | UnknownErrorMsg error
  | ProviderSwitchedBackupMsg
  | ManagerSwitchedBackupMsg
  | ConcurrentErrorMsg error
  | ConcurrentLimitMsg

text \<open>
  \<^verbatim>\<open>HandleTokenConfig\<close>, the fields the token handler reads. The class declares neither
  \<^verbatim>\<open>backup_token\<close> nor \<^verbatim>\<open>max_retry\<close> nor \<^verbatim>\<open>retry_delay\<close>, although
  \<^verbatim>\<open>token_handler.py\<close> reads all three: these fields are options, \<open>None\<close> standing for
  "the attribute does not exist" (reading it raises \<^verbatim>\<open>AttributeError\<close>). Every object
  that \<^verbatim>\<open>load_config\<close> can return has \<open>None\<close> in the three.
\<close>

record config =
  default_token :: string
  token_keyword :: string
  pool_size :: int
  expiry_time :: real
  min_time_between_refreshes :: real
  max_concurrent_refreshes :: int
  refresh_failure_attempts_threshold :: int
  auto_switch_backup_on_failure :: bool
  thread_pool_size :: int
  backup_token :: "string option"
  max_retry :: "int option"
  retry_delay :: "real option"

definition HandleTokenConfig :: config where
  "HandleTokenConfig =
     \<lparr> default_token = '''', token_keyword = ''token'', pool_size = 5,
       expiry_time = 7200, min_time_between_refreshes = 300,
       max_concurrent_refreshes = 5, refresh_failure_attempts_threshold = 10,
       auto_switch_backup_on_failure = False, thread_pool_size = 10,
       backup_token = None, max_retry = None, retry_delay = None \<rparr>"

subsection \<open>The world outside the objects\<close>

text \<open>
  \<open>posts\<close>: the form body \<open>(current_token, signature)\<close> of every POST issued, oldest
  first. \<open>signature_cache\<close> and \<open>get_token_cache\<close>: the dictionaries of the two
  \<^verbatim>\<open>lru_cache\<close> decorators, keyed by object identity. \<open>refresh_calls\<close> counts the calls
  of \<^verbatim>\<open>refresh_token()\<close> on a provider, \<open>notified\<close> lists the calls of an
  \<^verbatim>\<open>on_token_updated\<close> callback (manager identity, argument), \<open>refreshed\<close> lists
  the calls of \<^verbatim>\<open>TokenManager.refresh_token()\<close> in the order they are made (identity
  of the manager, address of its provider).
\<close>

record world =
  now :: real
  posts :: "(string \<times> string) list"
  logged :: "(level \<times> log_msg) list"
  signature_cache :: "nat \<rightharpoonup> string"
  get_token_cache :: "nat \<rightharpoonup> string option"
  refresh_calls :: nat
  notified :: "(nat \<times> string) list"
  refreshed :: "(nat \<times> nat) list"

type_synonym server = "nat \<Rightarrow> real \<times> (error + (string \<rightharpoonup> string))"

definition log_line :: "level \<Rightarrow> log_msg \<Rightarrow> world \<Rightarrow> world" where
  "log_line l m w = w\<lparr>logged := logged w @ [(l, m)]\<rparr>"

subsection \<open>DefaultTokenProvider\<close>

text \<open>
  The instance attributes set by \<^verbatim>\<open>__init__\<close>; \<open>ident\<close> is the identity of the
  object. The token in a response is taken to be a JSON string.
\<close>

record provider =
  ident :: nat
  current_token :: string
  token_expiry_time :: real
  last_refresh_timestamp :: real
  refresh_failure_count :: int

text \<open>
  What a call of a method of the \<^verbatim>\<open>TokenProvider\<close> interface, or a read of the attribute
  \<^verbatim>\<open>config\<close>, resolves to on the class of a provider object. \<open>is_token_expired_m\<close> and
  \<open>refresh_token_m\<close> get the clock reading and the instance state; \<open>refresh_token_m\<close>
  returns the state it leaves. \<open>config_attr = None\<close>: the object has no attribute
  \<^verbatim>\<open>config\<close>.
\<close>

record provider_class =
  is_token_expired_m :: "real \<Rightarrow> provider \<Rightarrow> error + bool"
  refresh_token_m :: "real \<Rightarrow> provider \<Rightarrow> (error + string option) \<times> provider"
  config_attr :: "config option"

text \<open>
  \<^verbatim>\<open>DefaultTokenProvider\<close> overrides none of \<^verbatim>\<open>get_token\<close>, \<^verbatim>\<open>is_token_expired\<close>,
  \<^verbatim>\<open>refresh_token\<close>: the calls resolve to \<^verbatim>\<open>TokenProvider\<close>, whose bodies are
  \<^verbatim>\<open>raise NotImplementedError\<close>; and it sets no attribute \<^verbatim>\<open>config\<close>.
\<close>

definition TokenProvider_is_token_expired :: "real \<Rightarrow> provider \<Rightarrow> error + bool" where
  "TokenProvider_is_token_expired t p = Inl NotImplementedError"

definition TokenProvider_refresh_token ::
  "real \<Rightarrow> provider \<Rightarrow> (error + string option) \<times> provider" where
  "TokenProvider_refresh_token t p = (Inl NotImplementedError, p)"

definition DefaultTokenProvider :: provider_class where
  "DefaultTokenProvider =
     \<lparr> is_token_expired_m = TokenProvider_is_token_expired,
       refresh_token_m = TokenProvider_refresh_token,
       config_attr = None \<rparr>"

text \<open>
  \<^verbatim>\<open>__init__\<close>. \<^verbatim>\<open>ThreadPoolExecutor(max_workers=n)\<close> raises \<^verbatim>\<open>ValueError\<close> for
  \<open>n \<le> 0\<close>.
\<close>

definition DefaultTokenProvider_init :: "config \<Rightarrow> nat \<Rightarrow> world \<Rightarrow> error + provider" where
  "DefaultTokenProvider_init cfg i w =
     (if thread_pool_size cfg \<le> 0 then Inl ValueError
      else Inr \<lparr> ident = i, current_token = default_token cfg,
                 token_expiry_time = now w + expiry_time cfg,
                 last_refresh_timestamp = 0, refresh_failure_count = 0 \<rparr>)"

text \<open>\<^verbatim>\<open>generate_signature\<close>: the decorated method, then its body.\<close>

definition generate_signature_body :: "(string \<Rightarrow> string) \<Rightarrow> provider \<Rightarrow> string" where
  "generate_signature_body sha p = sha (current_token p)"

definition generate_signature ::
  "(string \<Rightarrow> string) \<Rightarrow> provider \<Rightarrow> world \<Rightarrow> string \<times> world" where
  "generate_signature sha p w =
     (case signature_cache w (ident p) of
        Some s \<Rightarrow> (s, w)
      | None \<Rightarrow>
          (let s = generate_signature_body sha p
           in (s, w\<lparr>signature_cache := (signature_cache w)(ident p \<mapsto> s)\<rparr>)))"

definition should_refresh_token ::
  "provider_class \<Rightarrow> config \<Rightarrow> provider \<Rightarrow> world \<Rightarrow> error + bool" where
  "should_refresh_token cls cfg p w =
     (case is_token_expired_m cls (now w) p of
        Inl e \<Rightarrow> Inl e
      | Inr True \<Rightarrow> Inr True
      | Inr False \<Rightarrow>
          Inr (now w - last_refresh_timestamp p > min_time_between_refreshes cfg))"

definition update_current_token :: "config \<Rightarrow> string \<Rightarrow> provider \<Rightarrow> world \<Rightarrow> provider" where
  "update_current_token cfg new_token p w =
     p\<lparr> current_token := new_token,
        token_expiry_time := now w + expiry_time cfg,
        last_refresh_timestamp := now w,
        refresh_failure_count := 0 \<rparr>"

text \<open>
  The three \<^verbatim>\<open>_handle_error\<close> methods log the exception and then one line chosen by
  \<^verbatim>\<open>isinstance\<close>: \<^verbatim>\<open>aiohttp.ClientError\<close>, else \<^verbatim>\<open>ValueError\<close>, else unknown. They
  assign no attribute.
\<close>

definition classify :: "error \<Rightarrow> log_msg" where
  "classify e =
     (if e = ClientError then NetworkErrorMsg
      else if e = ValueError then MalformedResponseMsg
      else UnknownErrorMsg e)"

definition provider_handle_error :: "error \<Rightarrow> world \<Rightarrow> world" where
  "provider_handle_error e w =
     log_line ERROR (classify e) (log_line ERROR (RefreshErrorMsg e) w)"

text \<open>
  The \<^verbatim>\<open>try\<close> suite of \<^verbatim>\<open>_async_refresh_token\<close>: the value returned or the exception
  raised in it, and the state it leaves.
\<close>

definition try_block ::
  "provider_class \<Rightarrow> config \<Rightarrow> (string \<Rightarrow> string) \<Rightarrow> server \<Rightarrow> provider \<Rightarrow> world
     \<Rightarrow> (error + string) \<times> provider \<times> world" where
  "try_block cls cfg sha srv p w =
     (case should_refresh_token cls cfg p w of
        Inl e \<Rightarrow> (Inl e, p, w)
      | Inr False \<Rightarrow> (Inr (current_token p), p, w)
      | Inr True \<Rightarrow>
          (let (signature, w1) = generate_signature sha p w;
               (elapsed, outcome) = srv (length (posts w1));
               w2 = w1\<lparr> now := now w1 + elapsed,
                        posts := posts w1 @ [(current_token p, signature)] \<rparr>
           in case outcome of
                Inl e \<Rightarrow> (Inl e, p, w2)
              | Inr response_json \<Rightarrow>
                  (if response_json ''error'' \<noteq> None then (Inl ValueError, p, w2)
                   else case response_json (token_keyword cfg) of
                          None \<Rightarrow> (Inl ValueError, p, w2)
                        | Some new_token \<Rightarrow>
                            (Inr new_token, update_current_token cfg new_token p w2, w2))))"

text \<open>
  The \<^verbatim>\<open>except\<close> suite up to the recursive call: \<open>Some e\<close> when the suite itself raises
  (the read of the undeclared \<^verbatim>\<open>backup_token\<close>), else \<open>None\<close> and the call recurses.
\<close>

definition except_block ::
  "config \<Rightarrow> error \<Rightarrow> provider \<Rightarrow> world \<Rightarrow> error option \<times> provider \<times> world" where
  "except_block cfg e p w =
     (let w1 = provider_handle_error e w
      in if refresh_failure_count p \<ge> refresh_failure_attempts_threshold cfg
         then (if auto_switch_backup_on_failure cfg
               then (case backup_token cfg of
                       None \<Rightarrow> (Some AttributeError, p, w1)
                     | Some b \<Rightarrow>
                         (if b \<noteq> ''''
                          then (None,
                                p\<lparr> current_token := b,
                                   token_expiry_time := now w1 + expiry_time cfg \<rparr>,
                                log_line INFO ProviderSwitchedBackupMsg w1)
                          else (None, p, w1)))
               else (None, p, w1))
         else (None, p, w1))"

text \<open>
  \<^verbatim>\<open>_async_refresh_token\<close>. The method calls itself after every handled failure, with
  no bound: a call that never returns has the value \<open>None\<close>.
\<close>

partial_function (option) async_refresh_token ::
  "provider_class \<Rightarrow> config \<Rightarrow> (string \<Rightarrow> string) \<Rightarrow> server \<Rightarrow> provider \<Rightarrow> world
     \<Rightarrow> ((error + string) \<times> provider \<times> world) option" where
  "async_refresh_token cls cfg sha srv p w =
     (case try_block cls cfg sha srv p w of
        (Inr tok, p1, w1) \<Rightarrow> Some (Inr tok, p1, w1)
      | (Inl e, p1, w1) \<Rightarrow>
          (case except_block cfg e p1 w1 of
             (Some e', p2, w2) \<Rightarrow> Some (Inl e', p2, w2)
           | (None, p2, w2) \<Rightarrow> async_refresh_token cls cfg sha srv p2 w2))"

subsection \<open>TokenManager\<close>

text \<open>
  Provider objects live in a store, addressed by naturals: the managers of a pool hold
  references to one provider. \<open>token_provider\<close> is such a reference. \<open>on_token_updated\<close>
  tells whether a callback is registered (its calls are recorded in \<open>notified\<close>).
  \<open>cached_current_token = None\<close> is Python's \<^verbatim>\<open>None\<close>. \<open>invalid\<close> is the attribute
  that \<^verbatim>\<open>TokenFetcherPool._async_refresh_token\<close> assigns.
\<close>

record manager =
  m_ident :: nat
  token_provider :: nat
  cached_current_token :: "string option"
  on_token_updated :: bool
  m_backup_token :: string
  invalid :: bool

type_synonym store = "nat \<Rightarrow> provider"

text \<open>
  \<^verbatim>\<open>__init__\<close> up to the assignment of \<^verbatim>\<open>_backup_token\<close>, which reads
  \<^verbatim>\<open>self._token_provider.config.backup_token\<close>; the lock, the event loop and the
  background task that follow assign nothing the other methods read.
\<close>

definition TokenManager_init ::
  "provider_class \<Rightarrow> nat \<Rightarrow> nat \<Rightarrow> store \<Rightarrow> bool \<Rightarrow> error + manager" where
  "TokenManager_init cls i a st cb =
     (let cached = (if current_token (st a) = [] then None
                    else Some (current_token (st a)))
      in case config_attr cls of
           None \<Rightarrow> Inl AttributeError
         | Some c \<Rightarrow>
             (case backup_token c of
                None \<Rightarrow> Inl AttributeError
              | Some b \<Rightarrow>
                  Inr \<lparr> m_ident = i, token_provider = a, cached_current_token = cached,
                        on_token_updated = cb, m_backup_token = b, invalid = False \<rparr>))"

definition manager_handle_error :: "error \<Rightarrow> world \<Rightarrow> world" where
  "manager_handle_error e w =
     log_line ERROR (classify e) (log_line ERROR (RefreshErrorMsg e) w)"

text \<open>\<^verbatim>\<open>self._token_provider.refresh_token()\<close>: the call, counted.\<close>

definition provider_refresh_token ::
  "provider_class \<Rightarrow> nat \<Rightarrow> store \<Rightarrow> world \<Rightarrow> (error + string option) \<times> store \<times> world" where
  "provider_refresh_token cls a st w =
     (let (r, p') = refresh_token_m cls (now w) (st a)
      in (r, st(a := p'), w\<lparr>refresh_calls := refresh_calls w + 1\<rparr>))"

definition is_token_expired :: "store \<Rightarrow> manager \<Rightarrow> world \<Rightarrow> bool" where
  "is_token_expired st m w =
     (let e = token_expiry_time (st (token_provider m))
      in if e \<noteq> 0 then now w > e else True)"

definition refresh_token ::
  "provider_class \<Rightarrow> manager \<Rightarrow> store \<Rightarrow> world \<Rightarrow> (error + string option) \<times> store \<times> world" where
  "refresh_token cls m st w =
     (case provider_refresh_token cls (token_provider m) st
             (w\<lparr>refreshed := refreshed w @ [(m_ident m, token_provider m)]\<rparr>) of
        (Inl e, st1, w1) \<Rightarrow> (Inl e, st1, w1)
      | (Inr None, st1, w1) \<Rightarrow> (Inr None, st1, w1)
      | (Inr (Some new_token), st1, w1) \<Rightarrow>
          (if new_token \<noteq> [] \<and> on_token_updated m
           then (Inr (Some new_token), st1,
                 w1\<lparr>notified := notified w1 @ [(m_ident m, new_token)]\<rparr>)
           else (Inr (Some new_token), st1, w1)))"

text \<open>
  The body of \<^verbatim>\<open>get_token\<close>. The test \<^verbatim>\<open>is_token_expired()\<close> of the provider stands
  outside the \<^verbatim>\<open>try\<close>: what it raises leaves the method.
\<close>

definition get_token_body ::
  "provider_class \<Rightarrow> manager \<Rightarrow> store \<Rightarrow> world
     \<Rightarrow> (error + string option) \<times> manager \<times> store \<times> world" where
  "get_token_body cls m st w =
     (case (if cached_current_token m = None then Inr True
            else is_token_expired_m cls (now w) (st (token_provider m))) of
        Inl e \<Rightarrow> (Inl e, m, st, w)
      | Inr False \<Rightarrow> (Inr (cached_current_token m), m, st, w)
      | Inr True \<Rightarrow>
          (case provider_refresh_token cls (token_provider m) st w of
             (Inr t, st1, w1) \<Rightarrow> (Inr t, m\<lparr>cached_current_token := t\<rparr>, st1, w1)
           | (Inl e, st1, w1) \<Rightarrow>
               (let w2 = manager_handle_error e w1
                in if m_backup_token m \<noteq> []
                   then (Inr (Some (m_backup_token m)),
                         m\<lparr>cached_current_token := Some (m_backup_token m)\<rparr>, st1,
                         log_line INFO ManagerSwitchedBackupMsg w2)
                   else (Inr (cached_current_token m), m, st1, w2))))"

text \<open>
  \<^verbatim>\<open>get_token\<close> as decorated with \<^verbatim>\<open>lru_cache(maxsize=None)\<close>: a hit returns the
  stored value and does not run the body; a value the body returns is stored; an
  exception is not.
\<close>

definition get_token ::
  "provider_class \<Rightarrow> manager \<Rightarrow> store \<Rightarrow> world
     \<Rightarrow> (error + string option) \<times> manager \<times> store \<times> world" where
  "get_token cls m st w =
     (case get_token_cache w (m_ident m) of
        Some v \<Rightarrow> (Inr v, m, st, w)
      | None \<Rightarrow>
          (case get_token_body cls m st w of
             (Inl e, m1, st1, w1) \<Rightarrow> (Inl e, m1, st1, w1)
           | (Inr v, m1, st1, w1) \<Rightarrow>
               (Inr v, m1, st1,
                w1\<lparr>get_token_cache := (get_token_cache w1)(m_ident m \<mapsto> v)\<rparr>)))"

subsection \<open>TokenFetcherPool\<close>

text \<open>
  The \<^verbatim>\<open>ThreadPoolExecutor\<close> of the pool: \<open>max_workers\<close>, the size of its work queue
  (\<^verbatim>\<open>_work_queue.qsize()\<close>), and the number of work items its threads are running
  (\<open>in_flight\<close>, which no code of the module reads).
\<close>

record executor =
  max_workers :: int
  work_queue :: nat
  in_flight :: nat

record pool =
  token_fetchers :: "manager list"
  concurrent_refresh_executor :: executor
  retry_count :: int
  pool_max_retry :: int

text \<open>
  \<^verbatim>\<open>__init__\<close>: the provider is a \<^verbatim>\<open>DefaultTokenProvider()\<close>, stored at address \<open>a\<close>;
  the managers get the identities \<open>i + 1, i + 2, ...\<close>.
\<close>

fun init_managers ::
  "provider_class \<Rightarrow> nat \<Rightarrow> store \<Rightarrow> nat \<Rightarrow> nat \<Rightarrow> error + manager list" where
  "init_managers cls a st i 0 = Inr []"
| "init_managers cls a st i (Suc n) =
     (case TokenManager_init cls (Suc i) a st False of
        Inl e \<Rightarrow> Inl e
      | Inr m \<Rightarrow>
          (case init_managers cls a st (Suc i) n of
             Inl e \<Rightarrow> Inl e
           | Inr ms \<Rightarrow> Inr (m # ms)))"

definition TokenFetcherPool_init ::
  "config \<Rightarrow> nat \<Rightarrow> nat \<Rightarrow> store \<Rightarrow> world \<Rightarrow> error + pool \<times> store" where
  "TokenFetcherPool_init cfg a i st w =
     (case DefaultTokenProvider_init cfg i w of
        Inl e \<Rightarrow> Inl e
      | Inr shared \<Rightarrow>
          (case config_attr DefaultTokenProvider of
             None \<Rightarrow> Inl AttributeError
           | Some c \<Rightarrow>
               (case init_managers DefaultTokenProvider a (st(a := shared)) i
                       (nat (pool_size c)) of
                  Inl e \<Rightarrow> Inl e
                | Inr ms \<Rightarrow>
                    (case max_retry cfg of
                       None \<Rightarrow> Inl AttributeError
                     | Some r \<Rightarrow>
                         Inr (\<lparr> token_fetchers = ms,
                                 concurrent_refresh_executor =
                                   \<lparr> max_workers = max 2 (pool_size c div 2),
                                     work_queue = 0, in_flight = 0 \<rparr>,
                                 retry_count = 0, pool_max_retry = r \<rparr>,
                              st(a := shared))))))"

text \<open>\<^verbatim>\<open>get_token_fetcher\<close>: the \<^verbatim>\<open>for\<close> loop over \<^verbatim>\<open>self._token_fetchers\<close>.\<close>

fun scan_fetchers :: "store \<Rightarrow> world \<Rightarrow> manager list \<Rightarrow> manager option" where
  "scan_fetchers st w [] = None"
| "scan_fetchers st w (fetcher # rest) =
     (if \<not> is_token_expired st fetcher w then Some fetcher
      else scan_fetchers st w rest)"

definition get_token_fetcher :: "store \<Rightarrow> pool \<Rightarrow> world \<Rightarrow> manager option" where
  "get_token_fetcher st pl w = scan_fetchers st w (token_fetchers pl)"

definition can_refresh_concurrently :: "pool \<Rightarrow> bool" where
  "can_refresh_concurrently pl =
     (int (work_queue (concurrent_refresh_executor pl))
        < max_workers (concurrent_refresh_executor pl) * 2)"

definition pool_handle_error :: "error \<Rightarrow> world \<Rightarrow> world" where
  "pool_handle_error e w =
     log_line ERROR (classify e) (log_line ERROR (ConcurrentErrorMsg e) w)"

text \<open>
  \<^verbatim>\<open>TokenFetcherPool._async_refresh_token(fetcher)\<close> is one task of the
  \<^verbatim>\<open>asyncio.gather\<close> in \<^verbatim>\<open>refresh_token_concurrently\<close>. The tasks run on one event
  loop, each up to its \<^verbatim>\<open>await asyncio.sleep(...)\<close> or to its end, in the order of the
  list; the sleeping ones resume afterwards, in the same order. \<open>task_start\<close> is a task
  up to that point, \<open>resume_tasks\<close> the rest of the sleeping tasks: the increment of
  \<^verbatim>\<open>_retry_count\<close> and the second \<^verbatim>\<open>fetcher.refresh_token()\<close>, which stands outside
  the \<^verbatim>\<open>try\<close>.
\<close>

datatype task = Done "error + string option" | Sleeping

definition task_start ::
  "provider_class \<Rightarrow> config \<Rightarrow> pool \<Rightarrow> manager \<Rightarrow> store \<Rightarrow> world
     \<Rightarrow> task \<times> manager \<times> store \<times> world" where
  "task_start cls cfg pl fetcher st w =
     (case refresh_token cls fetcher st w of
        (Inr t, st1, w1) \<Rightarrow> (Done (Inr t), fetcher, st1, w1)
      | (Inl e, st1, w1) \<Rightarrow>
          (let w2 = pool_handle_error e w1;
               fetcher' = fetcher\<lparr>invalid := True\<rparr>
           in if retry_count pl < pool_max_retry pl
              then (case retry_delay cfg of
                      None \<Rightarrow> (Done (Inl AttributeError), fetcher', st1, w2)
                    | Some d \<Rightarrow> (Sleeping, fetcher', st1, w2))
              else (Done (Inr None), fetcher', st1, w2)))"

fun start_tasks ::
  "provider_class \<Rightarrow> config \<Rightarrow> pool \<Rightarrow> manager list \<Rightarrow> store \<Rightarrow> world
     \<Rightarrow> (task \<times> manager) list \<times> store \<times> world" where
  "start_tasks cls cfg pl [] st w = ([], st, w)"
| "start_tasks cls cfg pl (fetcher # rest) st w =
     (case task_start cls cfg pl fetcher st w of
        (t, fetcher', st1, w1) \<Rightarrow>
          (case start_tasks cls cfg pl rest st1 w1 of
             (ts, st2, w2) \<Rightarrow> ((t, fetcher') # ts, st2, w2)))"

fun resume_tasks ::
  "provider_class \<Rightarrow> (task \<times> manager) list \<Rightarrow> int \<Rightarrow> store \<Rightarrow> world
     \<Rightarrow> (error + string option) list \<times> int \<times> store \<times> world" where
  "resume_tasks cls [] rc st w = ([], rc, st, w)"
| "resume_tasks cls ((Done r, fetcher) # ts) rc st w =
     (case resume_tasks cls ts rc st w of
        (rs, rc1, st1, w1) \<Rightarrow> (r # rs, rc1, st1, w1))"
| "resume_tasks cls ((Sleeping, fetcher) # ts) rc st w =
     (case refresh_token cls fetcher st w of
        (r, st1, w1) \<Rightarrow>
          (case resume_tasks cls ts (rc + 1) st1 w1 of
             (rs, rc2, st2, w2) \<Rightarrow> (r # rs, rc2, st2, w2)))"

text \<open>The exception that \<^verbatim>\<open>await asyncio.gather(*tasks)\<close> raises: that of the first failed task.\<close>

fun first_error :: "(error + string option) list \<Rightarrow> error option" where
  "first_error [] = None"
| "first_error (Inl e # rs) = Some e"
| "first_error (Inr v # rs) = first_error rs"

definition sleep :: "config \<Rightarrow> (task \<times> manager) list \<Rightarrow> world \<Rightarrow> world" where
  "sleep cfg ts w =
     (case retry_delay cfg of
        Some d \<Rightarrow> (if Sleeping \<in> set (map fst ts) then w\<lparr>now := now w + max 0 d\<rparr> else w)
      | None \<Rightarrow> w)"

definition refresh_token_concurrently ::
  "provider_class \<Rightarrow> config \<Rightarrow> pool \<Rightarrow> store \<Rightarrow> world
     \<Rightarrow> error option \<times> pool \<times> store \<times> world" where
  "refresh_token_concurrently cls cfg pl st w =
     (if can_refresh_concurrently pl
      then (case start_tasks cls cfg pl (token_fetchers pl) st w of
              (ts, st1, w1) \<Rightarrow>
                (case resume_tasks cls ts (retry_count pl) st1 (sleep cfg ts w1) of
                   (rs, rc, st2, w2) \<Rightarrow>
                     (first_error rs,
                      pl\<lparr>token_fetchers := map snd ts, retry_count := rc\<rparr>, st2, w2)))
      else (None, pl, st, log_line WARNING ConcurrentLimitMsg w))"

subsection \<open>Inputs of the concrete evaluations\<close>

text \<open>
  A class that implements the \<^verbatim>\<open>TokenProvider\<close> interface: \<open>clock_expiry\<close> compares
  the clock with \<^verbatim>\<open>_token_expiry_time\<close>; \<open>issuing cfg tok\<close> is a \<^verbatim>\<open>refresh_token\<close>
  that obtains \<open>tok\<close> and stores it as \<^verbatim>\<open>_update_current_token\<close> does; \<open>failing e\<close> is
  one that raises \<open>e\<close>. \<open>digest\<close> stands for the hex digest where a closed term needs
  one. \<open>world_at t\<close> is the world at time \<open>t\<close> with nothing posted, logged or cached.
\<close>

definition clock_expiry :: "real \<Rightarrow> provider \<Rightarrow> error + bool" where
  "clock_expiry t p = Inr (t > token_expiry_time p)"

definition issuing ::
  "config \<Rightarrow> string \<Rightarrow> real \<Rightarrow> provider \<Rightarrow> (error + string option) \<times> provider" where
  "issuing cfg tok t p =
     (Inr (Some tok),
      p\<lparr> current_token := tok, token_expiry_time := t + expiry_time cfg,
         last_refresh_timestamp := t, refresh_failure_count := 0 \<rparr>)"

definition failing :: "error \<Rightarrow> real \<Rightarrow> provider \<Rightarrow> (error + string option) \<times> provider" where
  "failing e t p = (Inl e, p)"

definition sample_class ::
  "config \<Rightarrow> (real \<Rightarrow> provider \<Rightarrow> (error + string option) \<times> provider) \<Rightarrow> provider_class" where
  "sample_class cfg r =
     \<lparr> is_token_expired_m = clock_expiry, refresh_token_m = r, config_attr = Some cfg \<rparr>"

definition digest :: "string \<Rightarrow> string" where
  "digest s = CHR ''#'' # s"

definition world_at :: "real \<Rightarrow> world" where
  "world_at t =
     \<lparr> now = t, posts = [], logged = [], signature_cache = Map.empty,
       get_token_cache = Map.empty, refresh_calls = 0, notified = [],
       refreshed = [] \<rparr>"

definition provider_with :: "string \<Rightarrow> real \<Rightarrow> provider" where
  "provider_with tok e =
     \<lparr> ident = 0, current_token = tok, token_expiry_time = e,
       last_refresh_timestamp = 0, refresh_failure_count = 0 \<rparr>"

definition manager_with :: "nat \<Rightarrow> string option \<Rightarrow> string \<Rightarrow> manager" where
  "manager_with i cached backup =
     \<lparr> m_ident = i, token_provider = 0, cached_current_token = cached,
       on_token_updated = False, m_backup_token = backup, invalid = False \<rparr>"

definition pool_with :: "manager list \<Rightarrow> int \<Rightarrow> nat \<Rightarrow> int \<Rightarrow> pool" where
  "pool_with ms workers queued retries =
     \<lparr> token_fetchers = ms,
       concurrent_refresh_executor =
         \<lparr> max_workers = workers, work_queue = queued, in_flight = 0 \<rparr>,
       retry_count = 0, pool_max_retry = retries \<rparr>"

text \<open>
  Three refresh endpoints: one that is down, one that answers \<^verbatim>\<open>{"error": "invalid"}\<close>,
  one that answers \<^verbatim>\<open>{"token": "t1"}\<close>; each call takes a second. \<open>backup_config\<close>
  enables the switch to a backup token after three failures.
\<close>

definition outage :: server where
  "outage n = (1, Inl ClientError)"

definition rejecting :: server where
  "rejecting n = (1, Inr [''error'' \<mapsto> ''invalid''])"

definition granting :: server where
  "granting n = (1, Inr [''token'' \<mapsto> ''t1''])"

definition backup_config :: config where
  "backup_config =
     HandleTokenConfig
       \<lparr> refresh_failure_attempts_threshold := 3,
         auto_switch_backup_on_failure := True,
         backup_token := Some ''backup'' \<rparr>"


section \<open>Properties\<close>

lemmas fixtures = Let_def sample_class_def clock_expiry_def issuing_def failing_def digest_def
  world_at_def provider_with_def manager_with_def pool_with_def outage_def rejecting_def
  granting_def backup_config_def HandleTokenConfig_def

subsection \<open>Auxiliary facts\<close>

text \<open>
  A call of \<^verbatim>\<open>_async_refresh_token\<close> does not return when, from some set \<open>I\<close> of
  states, every pass fails in the \<^verbatim>\<open>try\<close> suite, is handled without an exception, and
  leaves a state in \<open>I\<close> again.
\<close>

lemma async_refresh_token_never_returns:
  assumes step: "\<And>p w. I p w \<Longrightarrow>
      \<exists>e p1 w1 p2 w2. try_block cls cfg sha srv p w = (Inl e, p1, w1)
         \<and> except_block cfg e p1 w1 = (None, p2, w2) \<and> I p2 w2"
    and start: "I p w"
  shows "async_refresh_token cls cfg sha srv p w = None"
proof -
  have "\<not> I p w" if ret: "async_refresh_token cls cfg sha srv p w = Some y" for p w y
  proof -
    have "cls = cls \<and> cfg = cfg \<and> sha = sha \<and> srv = srv \<longrightarrow> \<not> I p w"
    proof (rule async_refresh_token.raw_induct
        [where P = "\<lambda>c g s v p w y. c = cls \<and> g = cfg \<and> s = sha \<and> v = srv \<longrightarrow> \<not> I p w",
          OF _ ret])
      fix f c g s v p w y
      assume IH: "\<And>c g s v p w y. f c g s v p w = Some y \<Longrightarrow>
                   c = cls \<and> g = cfg \<and> s = sha \<and> v = srv \<longrightarrow> \<not> I p w"
        and unfolded: "(case try_block c g s v p w of
               (Inl e, p1, w1) \<Rightarrow>
                 (case except_block g e p1 w1 of
                    (None, p2, w2) \<Rightarrow> f c g s v p2 w2
                  | (Some e', p2, w2) \<Rightarrow> Some (Inl e', p2, w2))
             | (Inr tok, p1, w1) \<Rightarrow> Some (Inr tok, p1, w1)) = Some y"
      show "c = cls \<and> g = cfg \<and> s = sha \<and> v = srv \<longrightarrow> \<not> I p w"
      proof (intro impI notI)
        assume eq: "c = cls \<and> g = cfg \<and> s = sha \<and> v = srv" and inv: "I p w"
        from step [OF inv] obtain e p1 w1 p2 w2 where
          t: "try_block cls cfg sha srv p w = (Inl e, p1, w1)" and
          x: "except_block cfg e p1 w1 = (None, p2, w2)" and i2: "I p2 w2" by blast
        from unfolded eq t x have "f cls cfg sha srv p2 w2 = Some y" by simp
        from IH [OF this] i2 show False by simp
      qed
    qed
    then show ?thesis by simp
  qed
  then have "async_refresh_token cls cfg sha srv p w \<noteq> Some y" for y
    using start by blast
  then show ?thesis by (cases "async_refresh_token cls cfg sha srv p w") auto
qed

text \<open>While the endpoint is down and the count is below the threshold, a pass of an expired provider is such a pass.\<close>

lemma outage_try:
  assumes "token_expiry_time p < now w"
  shows "fst (try_block (sample_class cfg r) cfg sha outage p w) = Inl ClientError
       \<and> fst (snd (try_block (sample_class cfg r) cfg sha outage p w)) = p
       \<and> now (snd (snd (try_block (sample_class cfg r) cfg sha outage p w))) = now w + 1"
  using assms
  by (simp add: try_block_def should_refresh_token_def generate_signature_def
      generate_signature_body_def sample_class_def clock_expiry_def outage_def Let_def
      split: option.splits)

lemma except_block_below_threshold:
  assumes "refresh_failure_count p < refresh_failure_attempts_threshold cfg"
  shows "except_block cfg e p w = (None, p, provider_handle_error e w)"
  using assms by (simp add: except_block_def Let_def)

lemma provider_handle_error_now [simp]: "now (provider_handle_error e w) = now w"
  by (simp add: provider_handle_error_def log_line_def)

lemma outage_step:
  assumes "refresh_failure_count p = 0" and "token_expiry_time p < now w"
  shows "\<exists>e p1 w1 p2 w2.
           try_block (sample_class backup_config r) backup_config sha outage p w = (Inl e, p1, w1)
         \<and> except_block backup_config e p1 w1 = (None, p2, w2)
         \<and> (refresh_failure_count p2 = 0 \<and> token_expiry_time p2 < now w2)"
proof -
  obtain x p1 w1 where
    t: "try_block (sample_class backup_config r) backup_config sha outage p w = (x, p1, w1)"
    by (cases "try_block (sample_class backup_config r) backup_config sha outage p w") auto
  with outage_try [OF assms(2), of backup_config r sha]
  have x: "x = Inl ClientError" "p1 = p" "now w1 = now w + 1" by simp_all
  from assms(1) have "refresh_failure_count p < refresh_failure_attempts_threshold backup_config"
    by (simp add: backup_config_def HandleTokenConfig_def)
  then have "except_block backup_config ClientError p w1
      = (None, p, provider_handle_error ClientError w1)"
    by (rule except_block_below_threshold)
  with t x assms show ?thesis by simp
qed

text \<open>The scan returns the first manager that is not expired.\<close>

lemma scan_fetchers_first:
  "(case scan_fetchers st w ms of
      None \<Rightarrow> (\<forall>m \<in> set ms. is_token_expired st m w)
    | Some m \<Rightarrow>
        (\<exists>i < length ms. ms ! i = m \<and> \<not> is_token_expired st m w
            \<and> (\<forall>j < i. is_token_expired st (ms ! j) w)))"
proof (induction ms)
  case Nil
  show ?case by simp
next
  case (Cons fetcher rest)
  show ?case
  proof (cases "is_token_expired st fetcher w")
    case False
    then have "0 < length (fetcher # rest) \<and> (fetcher # rest) ! 0 = fetcher
        \<and> \<not> is_token_expired st fetcher w
        \<and> (\<forall>j < 0. is_token_expired st ((fetcher # rest) ! j) w)" by simp
    then have "\<exists>i < length (fetcher # rest). (fetcher # rest) ! i = fetcher
        \<and> \<not> is_token_expired st fetcher w
        \<and> (\<forall>j < i. is_token_expired st ((fetcher # rest) ! j) w)" by blast
    with False show ?thesis by simp
  next
    case True
    show ?thesis
    proof (cases "scan_fetchers st w rest")
      case None
      with Cons.IH True show ?thesis by simp
    next
      case (Some m)
      with Cons.IH obtain i where i: "i < length rest" "rest ! i = m"
        "\<not> is_token_expired st m w" "\<forall>j < i. is_token_expired st (rest ! j) w"
        by auto
      have "\<forall>j < Suc i. is_token_expired st ((fetcher # rest) ! j) w"
      proof (intro allI impI)
        fix j assume "j < Suc i"
        then show "is_token_expired st ((fetcher # rest) ! j) w"
          using True i(4) by (cases j) auto
      qed
      with i have "Suc i < length (fetcher # rest) \<and> (fetcher # rest) ! Suc i = m
        \<and> \<not> is_token_expired st m w
        \<and> (\<forall>j < Suc i. is_token_expired st ((fetcher # rest) ! j) w)" by simp
      then have "\<exists>i < length (fetcher # rest). (fetcher # rest) ! i = m
        \<and> \<not> is_token_expired st m w
        \<and> (\<forall>j < i. is_token_expired st ((fetcher # rest) ! j) w)" by blast
      with True Some show ?thesis by simp
    qed
  qed
qed


lemma pool_handle_error_calls [simp]:
  "refresh_calls (pool_handle_error e w) = refresh_calls w"
  by (simp add: pool_handle_error_def log_line_def)

lemma pool_handle_error_refreshed [simp]:
  "refreshed (pool_handle_error e w) = refreshed w"
  by (simp add: pool_handle_error_def log_line_def)




lemma sleep_calls [simp]: "refresh_calls (sleep cfg ts w) = refresh_calls w"
  by (simp add: sleep_def split: option.splits)

lemma sleep_refreshed [simp]: "refreshed (sleep cfg ts w) = refreshed w"
  by (simp add: sleep_def split: option.splits)






subsection \<open>C1: the failure count and the switch to the backup token\<close>

text \<open>
  C1 says that every refresh failure increments the failure count of the provider and
  that, once the count has reached \<^verbatim>\<open>refresh_failure_attempts_threshold\<close> with the
  automatic switch enabled and a backup token configured, the live token becomes the
  backup token with a fresh expiry. The code compares the count with the threshold
  but never increments it. Evaluation at a provider with count 0, threshold 3, the
  switch enabled, backup token "backup", an expired token and an endpoint that is down:
  one pass through the \<^verbatim>\<open>try\<close> and \<^verbatim>\<open>except\<close> suites fails with the client error and
  leaves the count at 0 and the token unchanged, and the call as a whole never returns
  (it never reaches the threshold, so it never switches).
\<close>

theorem failure_count_not_incremented:
  "(case try_block (sample_class backup_config (failing ClientError)) backup_config sha outage
           (provider_with ''t0'' 100) (world_at 200) of
      (r, p1, w1) \<Rightarrow>
        r = Inl ClientError \<and>
        (case except_block backup_config ClientError p1 w1 of
           (x, p2, w2) \<Rightarrow>
             x = None \<and> refresh_failure_count p2 = 0 \<and> current_token p2 = ''t0''))
   \<and> async_refresh_token (sample_class backup_config (failing ClientError)) backup_config sha
         outage (provider_with ''t0'' 100) (world_at 200) = None"
proof
  show "(case try_block (sample_class backup_config (failing ClientError)) backup_config sha outage
           (provider_with ''t0'' 100) (world_at 200) of
      (r, p1, w1) \<Rightarrow>
        r = Inl ClientError \<and>
        (case except_block backup_config ClientError p1 w1 of
           (x, p2, w2) \<Rightarrow>
             x = None \<and> refresh_failure_count p2 = 0 \<and> current_token p2 = ''t0''))"
    by (simp add: try_block_def should_refresh_token_def generate_signature_def
      generate_signature_body_def except_block_def provider_handle_error_def log_line_def
      fixtures)
  have start: "refresh_failure_count (provider_with ''t0'' 100) = 0
      \<and> token_expiry_time (provider_with ''t0'' 100) < now (world_at 200)"
    by (simp add: provider_with_def world_at_def)
  show "async_refresh_token (sample_class backup_config (failing ClientError)) backup_config sha
         outage (provider_with ''t0'' 100) (world_at 200) = None"
    by (rule async_refresh_token_never_returns
        [where I = "\<lambda>p w. refresh_failure_count p = 0 \<and> token_expiry_time p < now w"])
       (use outage_step start in blast)+
qed

subsection \<open>C2: when a refresh call goes to the network\<close>




subsection \<open>C3: get\_token after the token has expired\<close>

text \<open>
  C3 says that a call of \<^verbatim>\<open>get_token()\<close> that finds the cache empty or the token
  expired triggers a refresh, also on a repeated call on the same manager. The
  \<^verbatim>\<open>lru_cache\<close> on the method stores the first value returned for the manager and
  the body is not run again. Evaluation: a manager holding "t1" is asked at time 50
  (token valid until 100) and answers "t1"; asked again at time 200, when the provider
  reports expiry, it answers "t1" with no refresh call, where the body of the method
  would have refreshed and answered "t2".
\<close>

theorem get_token_memoized_after_expiry:
  "(case get_token (sample_class HandleTokenConfig (issuing HandleTokenConfig ''t2''))
           (manager_with 1 (Some ''t1'') []) (\<lambda>a. provider_with ''t1'' 100) (world_at 50) of
      (r1, m1, st1, w1) \<Rightarrow>
        r1 = Inr (Some ''t1'') \<and>
        is_token_expired_m (sample_class HandleTokenConfig (issuing HandleTokenConfig ''t2''))
          200 (st1 (token_provider m1)) = Inr True \<and>
        (case get_token (sample_class HandleTokenConfig (issuing HandleTokenConfig ''t2''))
                m1 st1 (w1\<lparr>now := 200\<rparr>) of
           (r2, m2, st2, w2) \<Rightarrow> r2 = Inr (Some ''t1'') \<and> refresh_calls w2 = 0) \<and>
        (case get_token_body (sample_class HandleTokenConfig (issuing HandleTokenConfig ''t2''))
                m1 st1 (w1\<lparr>now := 200\<rparr>) of
           (r3, m3, st3, w3) \<Rightarrow> r3 = Inr (Some ''t2'') \<and> refresh_calls w3 = 1))"
  by (simp add: get_token_def get_token_body_def provider_refresh_token_def fixtures)

subsection \<open>C4: admission of the bulk refresh\<close>




subsection \<open>C5: the signature after the token has changed\<close>

text \<open>
  C5 says that \<^verbatim>\<open>generate_signature()\<close> returns the digest of the current token, also
  after the token has changed. The \<^verbatim>\<open>lru_cache\<close> on the method is keyed by the
  provider object: evaluation on a provider holding "old", then updated to "new" by
  \<^verbatim>\<open>_update_current_token\<close>: both calls return the digest of "old", where the body of
  the method gives the digest of "new".
\<close>

theorem generate_signature_stale_after_update:
  "(case generate_signature sha (provider_with ''old'' 100) (world_at 0) of
      (s1, w1) \<Rightarrow>
        s1 = sha ''old'' \<and>
        (case generate_signature sha
                (update_current_token HandleTokenConfig ''new'' (provider_with ''old'' 100) w1)
                w1 of
           (s2, w2) \<Rightarrow>
             s2 = sha ''old'' \<and>
             generate_signature_body sha
               (update_current_token HandleTokenConfig ''new'' (provider_with ''old'' 100) w1)
               = sha ''new''))"
  by (simp add: generate_signature_def generate_signature_body_def update_current_token_def
      fixtures)

subsection \<open>C6: what get\_token returns when the refresh fails\<close>

text \<open>
  C6 says that \<^verbatim>\<open>get_token()\<close> returns a valid token or raises, and never returns an
  empty value. Evaluation on a manager with an empty cache and no backup token whose
  provider's refresh raises a client error: the exception is logged and swallowed,
  and the call returns \<^verbatim>\<open>None\<close>.
\<close>

theorem get_token_returns_None:
  "(case get_token (sample_class HandleTokenConfig (failing ClientError))
           (manager_with 1 None []) (\<lambda>a. provider_with [] 100) (world_at 200) of
      (r, m1, st1, w1) \<Rightarrow>
        r = Inr None \<and> refresh_calls w1 = 1 \<and> cached_current_token m1 = None)"
  by (simp add: get_token_def get_token_body_def provider_refresh_token_def
      manager_handle_error_def log_line_def fixtures)

subsection \<open>C7: an error response\<close>

text \<open>
  C7 says that a response with an "error" field is classified as a malformed response,
  that the failure count increases by exactly 1 and that token, expiry and last-refresh
  time are unchanged. Evaluation on an expired provider with count 0 and an endpoint
  answering \<^verbatim>\<open>{"error": "invalid"}\<close>: one POST is issued, the \<^verbatim>\<open>try\<close> suite raises
  \<^verbatim>\<open>ValueError\<close>, the handler logs the malformed-response line and leaves the provider
  as it was, the count still 0.
\<close>

theorem error_response_not_counted:
  "(case try_block (sample_class HandleTokenConfig (failing ClientError)) HandleTokenConfig sha
           rejecting (provider_with ''t0'' 100) (world_at 200) of
      (r, p1, w1) \<Rightarrow>
        r = Inl ValueError \<and> length (posts w1) = 1 \<and>
        (case except_block HandleTokenConfig ValueError p1 w1 of
           (x, p2, w2) \<Rightarrow>
             x = None \<and> (ERROR, MalformedResponseMsg) \<in> set (logged w2) \<and>
             p2 = provider_with ''t0'' 100 \<and> refresh_failure_count p2 = 0))"
  by (simp add: try_block_def should_refresh_token_def generate_signature_def
      generate_signature_body_def except_block_def provider_handle_error_def log_line_def
      classify_def fixtures)

subsection \<open>C8: the scan of the pool\<close>

text \<open>
  C8: \<^verbatim>\<open>get_token_fetcher()\<close> returns the first manager of the pool's list whose
  \<^verbatim>\<open>is_token_expired()\<close> is false, and \<^verbatim>\<open>None\<close> when every manager of the pool is
  expired.
\<close>

theorem get_token_fetcher_first_unexpired:
  "(case get_token_fetcher st pl w of
      None \<Rightarrow> (\<forall>m \<in> set (token_fetchers pl). is_token_expired st m w)
    | Some m \<Rightarrow>
        (\<exists>i < length (token_fetchers pl). token_fetchers pl ! i = m
            \<and> \<not> is_token_expired st m w
            \<and> (\<forall>j < i. is_token_expired st (token_fetchers pl ! j) w)))"
  using scan_fetchers_first [where st = st and w = w and ms = "token_fetchers pl"]
  by (simp add: get_token_fetcher_def)

text \<open>
  Witness for C8: of three managers the first is expired and the other two are not,
  the second is returned; of two expired managers none is.
\<close>

theorem get_token_fetcher_first_unexpired_witness:
  "get_token_fetcher ((\<lambda>a. provider_with ''t1'' 100)(1 := provider_with ''t2'' 7200))
      (pool_with [manager_with 1 (Some ''t1'') [],
                  (manager_with 2 (Some ''t2'') [])\<lparr>token_provider := 1\<rparr>,
                  (manager_with 3 (Some ''t2'') [])\<lparr>token_provider := 1\<rparr>] 2 0 0)
      (world_at 200)
     = Some ((manager_with 2 (Some ''t2'') [])\<lparr>token_provider := 1\<rparr>)
   \<and> is_token_expired ((\<lambda>a. provider_with ''t1'' 100)(1 := provider_with ''t2'' 7200))
        (manager_with 1 (Some ''t1'') []) (world_at 200)
   \<and> get_token_fetcher (\<lambda>a. provider_with ''t1'' 100)
      (pool_with [manager_with 1 (Some ''t1'') [], manager_with 2 (Some ''t1'') []] 2 0 0)
      (world_at 200) = None"
  using get_token_fetcher_first_unexpired
      [where st = "(\<lambda>a. provider_with ''t1'' 100)(1 := provider_with ''t2'' 7200)"
        and w = "world_at 200" and pl =
        "pool_with [manager_with 1 (Some ''t1'') [],
                    (manager_with 2 (Some ''t2'') [])\<lparr>token_provider := 1\<rparr>,
                    (manager_with 3 (Some ''t2'') [])\<lparr>token_provider := 1\<rparr>] 2 0 0"]
    get_token_fetcher_first_unexpired
      [where st = "\<lambda>a. provider_with ''t1'' 100" and w = "world_at 200" and pl =
        "pool_with [manager_with 1 (Some ''t1'') [], manager_with 2 (Some ''t1'') []] 2 0 0"]
  by (simp add: get_token_fetcher_def is_token_expired_def fixtures)

subsection \<open>C9: failures during the bulk refresh\<close>

text \<open>
  C9 says that a manager whose retries are exhausted is marked invalid and excluded
  from every later scan of \<^verbatim>\<open>get_token_fetcher()\<close>. The task assigns
  \<^verbatim>\<open>fetcher.invalid = True\<close> under the comment "mark the token fetcher unavailable",
  and no code reads the attribute. Evaluation on a pool of one manager whose refresh
  fails, with one retry allowed and a delay of one second: the first attempt and the
  retry both fail (two refresh calls, the retry count at its maximum 1, the client
  error raised by the gather), the manager is marked invalid, and
  \<^verbatim>\<open>get_token_fetcher()\<close> still returns it, its token not being expired.
\<close>

theorem invalid_fetcher_still_returned:
  "(case refresh_token_concurrently
           (sample_class HandleTokenConfig (failing ClientError))
           (HandleTokenConfig\<lparr>retry_delay := Some 1\<rparr>)
           (pool_with [manager_with 1 (Some ''t1'') []] 2 0 1)
           (\<lambda>a. provider_with ''t1'' 7200) (world_at 0) of
      (r, pl1, st1, w1) \<Rightarrow>
        r = Some ClientError \<and> map invalid (token_fetchers pl1) = [True] \<and>
        retry_count pl1 = 1 \<and> refresh_calls w1 = 2 \<and>
        map_option invalid (get_token_fetcher st1 pl1 w1) = Some True)"
  by (simp add: refresh_token_concurrently_def can_refresh_concurrently_def task_start_def
      refresh_token_def provider_refresh_token_def pool_handle_error_def log_line_def
      sleep_def get_token_fetcher_def is_token_expired_def fixtures)

subsection \<open>C10: the constructors\<close>

text \<open>
  C10: for every \<^verbatim>\<open>DefaultTokenProvider\<close> instance, \<^verbatim>\<open>TokenManager(p)\<close> raises
  \<^verbatim>\<open>AttributeError\<close> (the read of \<^verbatim>\<open>p.config\<close>), whatever the state of the instance
  and the callback; and \<^verbatim>\<open>TokenFetcherPool()\<close> never returns a pool: it raises the
  \<^verbatim>\<open>ValueError\<close> of the provider's thread pool when \<^verbatim>\<open>thread_pool_size\<close> is not
  positive, and \<^verbatim>\<open>AttributeError\<close> otherwise.
\<close>

theorem constructors_raise:
  "TokenManager_init DefaultTokenProvider i a st cb = Inl AttributeError
   \<and> TokenFetcherPool_init cfg a' i' st' w =
       Inl (if thread_pool_size cfg \<le> 0 then ValueError else AttributeError)"
  by (simp add: TokenManager_init_def TokenFetcherPool_init_def DefaultTokenProvider_init_def
      DefaultTokenProvider_def)

end
